theory Spec2Isabelle
  imports Complex_Main "HOL-Library.Sublist"
begin

section \<open>Values, exceptions and library primitives\<close>

text \<open>
  Python values that flow between the engine, the capabilities and the context.
  A \<open>dict\<close> is an association list in insertion order (keys of a Python dict are
  distinct; lookup takes the first binding).  A Python \<open>float\<close> is modelled by a
  rational number: the engine only compares floats, converts integers to floats and
  passes floats through, so rounding, infinities and NaN play no role.
\<close>

datatype pyval =
    VNone
  | VBool bool
  | VInt int
  | VFloat rat
  | VStr string
  | VList "pyval list"
  | VDict "(string \<times> pyval) list"

type_synonym pydict = "(string \<times> pyval) list"

datatype exn_kind =
    RuntimeError
  | ValidationError
  | TemplateError
  | JSONGuardrailError
  | ValueError
  | TypeError
  | IndexError
  | OtherError string

text \<open>
  An exception has a class, the text \<open>str(e)\<close> and the \<open>__cause__\<close> set by
  \<open>raise ... from ...\<close>.
\<close>

datatype exn = Exn (exn_kind: exn_kind) (exn_msg: string) (exn_cause: "exn option")

definition raise_from :: "exn \<Rightarrow> exn \<Rightarrow> exn" where
  "raise_from e2 e = Exn (exn_kind e2) (exn_msg e2) (Some e)"

text \<open>
  Primitives of the Python runtime and of the pydantic library whose text output or
  parsing is not reproduced here; they are parameters of the model.
  \<^item> \<open>py_str v\<close>: the text \<open>str(v)\<close> that an f-string or a template prints for \<open>v\<close>;
  \<^item> \<open>py_float s\<close>: \<open>float(s)\<close> on a string, \<open>None\<close> when it raises \<open>ValueError\<close>;
  \<^item> \<open>pyd_float s\<close>: pydantic's conversion of a string to a \<open>float\<close> field;
  \<^item> \<open>pyd_errtext name bad\<close>: the text of pydantic's \<open>ValidationError\<close> for model
    \<open>name\<close> and the rejected fields \<open>bad\<close>.
\<close>

record pylib =
  py_str :: "pyval \<Rightarrow> string"
  py_float :: "string \<Rightarrow> rat option"
  pyd_float :: "string \<Rightarrow> rat option"
  pyd_errtext :: "string \<Rightarrow> (string \<times> pyval) list \<Rightarrow> string"

definition dict_get :: "('k \<times> 'v) list \<Rightarrow> 'k \<Rightarrow> 'v option" where
  "dict_get d k = map_of d k"

definition dict_keys :: "('k \<times> 'v) list \<Rightarrow> 'k list" where
  "dict_keys d = map fst d"

text \<open>\<open>d[k] = v\<close>: an existing key keeps its position, a new key is appended.\<close>

fun dict_set :: "('k \<times> 'v) list \<Rightarrow> 'k \<Rightarrow> 'v \<Rightarrow> ('k \<times> 'v) list" where
  "dict_set [] k v = [(k, v)]"
| "dict_set ((k', v') # d) k v = (if k' = k then (k, v) # d else (k', v') # dict_set d k v)"

text \<open>The text of \<open>type(v)\<close> in an f-string.\<close>

fun py_type_repr :: "pyval \<Rightarrow> string" where
  "py_type_repr VNone = ''<class 'NoneType'>''"
| "py_type_repr (VBool _) = ''<class 'bool'>''"
| "py_type_repr (VInt _) = ''<class 'int'>''"
| "py_type_repr (VFloat _) = ''<class 'float'>''"
| "py_type_repr (VStr _) = ''<class 'str'>''"
| "py_type_repr (VList _) = ''<class 'list'>''"
| "py_type_repr (VDict _) = ''<class 'dict'>''"

section \<open>Data model (models.py)\<close>

datatype value_type = TString | TNumber | TPath | TBoolean

datatype step_type = WEB | DESKTOP | WAIT

datatype executor_hint = Browser_use | Desktop_ax | Auto

record step_policy =
  max_actions :: int
  max_seconds :: int
  retries :: int

text \<open>
  \<open>Step\<close>: the \<open>fallbacks\<close> are steps again, so the class is a recursive datatype.
  \<open>evidence\<close> is debug-only data that the engine never reads.
\<close>

datatype step = Step
  (step_id: string)
  (step_type: step_type)
  (goal: string)
  (inputs: pydict)
  (outputs_schema: "(string \<times> value_type) list")
  (postconditions: "pyval list")
  (policy: step_policy)
  (executor_hint: executor_hint)
  (evidence: "pyval option")
  (fallbacks: "step list")

record workflow =
  wf_name :: string
  created_at_iso :: string
  wf_inputs :: "(string \<times> value_type) list"
  steps :: "step list"

subsection \<open>Output models\<close>

text \<open>
  The Python type of a generated pydantic field: \<open>str\<close>, \<open>float\<close> or \<open>bool\<close>.
\<close>

datatype field_type = FStr | FFloat | FBool

text \<open>\<open>_TYPE_MAP\<close>: the field type and the default of each declared primitive type.\<close>

fun TYPE_MAP :: "value_type \<Rightarrow> field_type \<times> pyval" where
  "TYPE_MAP TString = (FStr, VStr [])"
| "TYPE_MAP TNumber = (FFloat, VFloat 0)"
| "TYPE_MAP TPath = (FStr, VStr [])"
| "TYPE_MAP TBoolean = (FBool, VBool False)"

record output_model =
  model_name :: string
  model_fields :: "(string \<times> field_type \<times> pyval) list"

text \<open>
  \<open>make_output_model\<close>.  The branch for a type outside \<open>_TYPE_MAP\<close> cannot be taken:
  \<open>outputs_schema\<close> is typed \<open>Dict[str, ValueType]\<close> and \<open>ValueType\<close> has the four
  members of \<^typ>\<open>value_type\<close>.
\<close>

definition make_output_model :: "string \<Rightarrow> (string \<times> value_type) list \<Rightarrow> output_model" where
  "make_output_model sid schema =
     (if schema = []
      then \<lparr>model_name = ''OutputModel_'' @ sid, model_fields = [(''ok'', FStr, VStr [])]\<rparr>
      else \<lparr>model_name = ''OutputModel_'' @ sid,
            model_fields = map (\<lambda>(name, t). (name, TYPE_MAP t)) schema\<rparr>)"

definition output_model :: "step \<Rightarrow> output_model" where
  "output_model st = make_output_model (step_id st) (outputs_schema st)"

subsection \<open>pydantic validation of a returned mapping\<close>

text \<open>
  The strings pydantic converts to a \<open>bool\<close> field, compared without regard to ASCII
  case.
\<close>

definition ascii_lower :: "char \<Rightarrow> char" where
  "ascii_lower c =
     (let n = (of_char c :: nat) in if 65 \<le> n \<and> n \<le> 90 then char_of (n + 32) else c)"

definition str_as_bool :: "string \<Rightarrow> bool option" where
  "str_as_bool s =
     (let l = map ascii_lower s in
      if l \<in> set [''0'', ''off'', ''f'', ''false'', ''n'', ''no''] then Some False
      else if l \<in> set [''1'', ''on'', ''t'', ''true'', ''y'', ''yes''] then Some True
      else None)"

text \<open>
  The generated model has no configuration of its own, so pydantic validates each field
  in its default (lax) mode: a value of the field's type is taken as it is, and the
  conversions below are accepted; anything else is rejected.
\<close>

fun pyd_coerce :: "pylib \<Rightarrow> field_type \<Rightarrow> pyval \<Rightarrow> pyval option" where
  "pyd_coerce L FStr (VStr s) = Some (VStr s)"
| "pyd_coerce L FStr _ = None"
| "pyd_coerce L FFloat (VFloat x) = Some (VFloat x)"
| "pyd_coerce L FFloat (VInt i) = Some (VFloat (of_int i))"
| "pyd_coerce L FFloat (VBool b) = Some (VFloat (if b then 1 else 0))"
| "pyd_coerce L FFloat (VStr s) = map_option VFloat (pyd_float L s)"
| "pyd_coerce L FFloat _ = None"
| "pyd_coerce L FBool (VBool b) = Some (VBool b)"
| "pyd_coerce L FBool (VInt i) =
     (if i = 0 then Some (VBool False) else if i = 1 then Some (VBool True) else None)"
| "pyd_coerce L FBool (VFloat x) =
     (if x = 0 then Some (VBool False) else if x = 1 then Some (VBool True) else None)"
| "pyd_coerce L FBool (VStr s) = map_option VBool (str_as_bool s)"
| "pyd_coerce L FBool _ = None"

text \<open>
  One field of \<open>model_validate\<close>: absent from the input, the field takes its default;
  present, its value is converted.  \<open>Inl\<close> carries the rejected input.
\<close>

definition validate_field :: "pylib \<Rightarrow> pydict \<Rightarrow> string \<times> field_type \<times> pyval \<Rightarrow> (string \<times> pyval) + (string \<times> pyval)" where
  "validate_field L d f =
     (case f of (name, ft, dflt) \<Rightarrow>
        (case dict_get d name of
           None \<Rightarrow> Inr (name, dflt)
         | Some v \<Rightarrow>
             (case pyd_coerce L ft v of None \<Rightarrow> Inl (name, v) | Some v' \<Rightarrow> Inr (name, v'))))"

text \<open>
  \<open>OutputModel.model_validate(outputs)\<close> followed by \<open>model_dump()\<close>: every field is
  validated, all rejected fields are reported in one \<open>ValidationError\<close>, keys that are
  not fields are ignored, and the dump lists the fields in declaration order.  An input
  that is not a mapping is rejected as a whole.
\<close>

fun rejected :: "('a + 'b) list \<Rightarrow> 'a list" where
  "rejected [] = []"
| "rejected (Inl b # rs) = b # rejected rs"
| "rejected (Inr _ # rs) = rejected rs"

fun accepted :: "('a + 'b) list \<Rightarrow> 'b list" where
  "accepted [] = []"
| "accepted (Inl _ # rs) = accepted rs"
| "accepted (Inr kv # rs) = kv # accepted rs"

definition model_validate_dump :: "pylib \<Rightarrow> output_model \<Rightarrow> pyval \<Rightarrow> exn + pydict" where
  "model_validate_dump L M outputs =
     (case outputs of
        VDict d \<Rightarrow>
          (let rs = map (validate_field L d) (model_fields M) in
           if rejected rs = [] then Inr (accepted rs)
           else Inl (Exn ValidationError (pyd_errtext L (model_name M) (rejected rs)) None))
      | _ \<Rightarrow> Inl (Exn ValidationError (pyd_errtext L (model_name M) [([], outputs)]) None))"

section \<open>Output validation (orchestrator.py)\<close>

definition got_keys_text :: "pylib \<Rightarrow> pyval \<Rightarrow> string" where
  "got_keys_text L outputs =
     (case outputs of
        VDict d \<Rightarrow> py_str L (VList (map VStr (dict_keys d)))
      | _ \<Rightarrow> py_type_repr outputs)"

definition validation_message :: "pylib \<Rightarrow> step \<Rightarrow> pyval \<Rightarrow> exn \<Rightarrow> string" where
  "validation_message L st outputs e =
     step_id st @ '': executor output failed OutputModel validation.'' @ [CHR 0x0A]
     @ ''Expected fields: '' @ py_str L (VList (map VStr (dict_keys (outputs_schema st)))) @ [CHR 0x0A]
     @ ''Got keys: '' @ got_keys_text L outputs @ [CHR 0x0A]
     @ ''Validation error: '' @ exn_msg e"

definition validate_outputs :: "pylib \<Rightarrow> step \<Rightarrow> pyval \<Rightarrow> exn + pydict" where
  "validate_outputs L st outputs =
     (case model_validate_dump L (output_model st) outputs of
        Inl e \<Rightarrow> Inl (Exn RuntimeError (validation_message L st outputs e) (Some e))
      | Inr dumped \<Rightarrow> Inr dumped)"

section \<open>Template rendering (orchestrator.py)\<close>

text \<open>
  \<open>env.from_string(s).render(ctx)\<close>: the template environment maps a template and a
  context to the rendered text or to the exception it raises.
\<close>

type_synonym renderer = "string \<Rightarrow> pydict \<Rightarrow> exn + string"

text \<open>The string branch of \<open>render_templates\<close>: only a \<open>TemplateError\<close> is caught.\<close>

definition render_string :: "renderer \<Rightarrow> pydict \<Rightarrow> string \<Rightarrow> exn + string" where
  "render_string R ctx s =
     (case R s ctx of
        Inl e \<Rightarrow>
          (if exn_kind e = TemplateError
           then Inl (Exn RuntimeError
                      (''Template render failed for '' @ [CHR 0x27] @ s @ [CHR 0x27] @ '': '' @ exn_msg e)
                      (Some e))
           else Inl e)
      | Inr r \<Rightarrow> Inr r)"

text \<open>
  \<open>render_templates\<close>: the comprehensions over a dict and over a list stop at the first
  element whose rendering raises; keys are not rendered.
\<close>

fun render_templates :: "renderer \<Rightarrow> pydict \<Rightarrow> pyval \<Rightarrow> exn + pyval"
  and render_list :: "renderer \<Rightarrow> pydict \<Rightarrow> pyval list \<Rightarrow> exn + pyval list"
  and render_items :: "renderer \<Rightarrow> pydict \<Rightarrow> pydict \<Rightarrow> exn + pydict" where
  "render_templates R ctx (VStr s) =
     (case render_string R ctx s of Inl e \<Rightarrow> Inl e | Inr r \<Rightarrow> Inr (VStr r))"
| "render_templates R ctx (VDict d) =
     (case render_items R ctx d of Inl e \<Rightarrow> Inl e | Inr d' \<Rightarrow> Inr (VDict d'))"
| "render_templates R ctx (VList vs) =
     (case render_list R ctx vs of Inl e \<Rightarrow> Inl e | Inr vs' \<Rightarrow> Inr (VList vs'))"
| "render_templates R ctx VNone = Inr VNone"
| "render_templates R ctx (VBool b) = Inr (VBool b)"
| "render_templates R ctx (VInt i) = Inr (VInt i)"
| "render_templates R ctx (VFloat x) = Inr (VFloat x)"
| "render_list R ctx [] = Inr []"
| "render_list R ctx (v # vs) =
     (case render_templates R ctx v of
        Inl e \<Rightarrow> Inl e
      | Inr v' \<Rightarrow> (case render_list R ctx vs of Inl e \<Rightarrow> Inl e | Inr vs' \<Rightarrow> Inr (v' # vs')))"
| "render_items R ctx [] = Inr []"
| "render_items R ctx ((k, v) # d) =
     (case render_templates R ctx v of
        Inl e \<Rightarrow> Inl e
      | Inr v' \<Rightarrow> (case render_items R ctx d of Inl e \<Rightarrow> Inl e | Inr d' \<Rightarrow> Inr ((k, v') # d')))"

text \<open>
  \<open>_render_step\<close>: goal, inputs, postconditions, then the fallbacks recursively; the
  copy keeps every other field.
\<close>

fun render_step :: "renderer \<Rightarrow> pydict \<Rightarrow> step \<Rightarrow> exn + step"
  and render_steps :: "renderer \<Rightarrow> pydict \<Rightarrow> step list \<Rightarrow> exn + step list" where
  "render_step R ctx (Step sid ty g inp sch post pol hint ev fbs) =
     (case render_string R ctx g of
        Inl e \<Rightarrow> Inl e
      | Inr g' \<Rightarrow>
          (case render_items R ctx inp of
             Inl e \<Rightarrow> Inl e
           | Inr inp' \<Rightarrow>
               (case render_list R ctx post of
                  Inl e \<Rightarrow> Inl e
                | Inr post' \<Rightarrow>
                    (case render_steps R ctx fbs of
                       Inl e \<Rightarrow> Inl e
                     | Inr fbs' \<Rightarrow> Inr (Step sid ty g' inp' sch post' pol hint ev fbs')))))"
| "render_steps R ctx [] = Inr []"
| "render_steps R ctx (fb # fbs) =
     (case render_step R ctx fb of
        Inl e \<Rightarrow> Inl e
      | Inr fb' \<Rightarrow> (case render_steps R ctx fbs of Inl e \<Rightarrow> Inl e | Inr fbs' \<Rightarrow> Inr (fb' # fbs')))"

subsection \<open>The template environment\<close>

text \<open>
  Modelled from the spec: the template environment of \<open>Orchestrator.__init__\<close> (the
  Jinja2 library, which is not part of the sources), for the template language of the
  specification: text with placeholders \<open>{{ name }}\<close> and \<open>{{ name.name.name }}\<close>
  that are resolved in the context, strict on names that are not there.  A resolved
  string is printed as it is and any other value through \<open>str\<close>.  The open tags \<open>{%\<close>
  and \<open>{#\<close> and every other expression between \<open>{{\<close> and \<open>}}\<close> are outside
  this language and are rejected.  As in Jinja2, line breaks of the template are
  normalised and one trailing line break is removed before rendering.
\<close>

definition is_ident_start :: "char \<Rightarrow> bool" where
  "is_ident_start c =
     (let n = (of_char c :: nat) in (65 \<le> n \<and> n \<le> 90) \<or> (97 \<le> n \<and> n \<le> 122) \<or> n = 95)"

definition is_ident_char :: "char \<Rightarrow> bool" where
  "is_ident_char c = (let n = (of_char c :: nat) in is_ident_start c \<or> (48 \<le> n \<and> n \<le> 57))"

definition is_ident :: "string \<Rightarrow> bool" where
  "is_ident s = (case s of [] \<Rightarrow> False | c # cs \<Rightarrow> is_ident_start c \<and> list_all is_ident_char cs)"

definition is_blank :: "char \<Rightarrow> bool" where
  "is_blank c = (let n = (of_char c :: nat) in n = 32 \<or> (9 \<le> n \<and> n \<le> 13))"

definition trim :: "string \<Rightarrow> string" where
  "trim s = rev (dropWhile is_blank (rev (dropWhile is_blank s)))"

fun split_at :: "char \<Rightarrow> string \<Rightarrow> string list" where
  "split_at c [] = [[]]"
| "split_at c (x # xs) =
     (if x = c then [] # split_at c xs
      else (case split_at c xs of [] \<Rightarrow> [[x]] | p # ps \<Rightarrow> (x # p) # ps))"

definition parse_path :: "string \<Rightarrow> string list option" where
  "parse_path e = (let ps = split_at (CHR ''.'') (trim e) in if list_all is_ident ps then Some ps else None)"

fun lookup_path :: "pyval \<Rightarrow> string list \<Rightarrow> pyval option" where
  "lookup_path v [] = Some v"
| "lookup_path (VDict d) (n # ns) =
     (case dict_get d n of None \<Rightarrow> None | Some v \<Rightarrow> lookup_path v ns)"
| "lookup_path _ (n # ns) = None"

definition to_text :: "pylib \<Rightarrow> pyval \<Rightarrow> string" where
  "to_text L v = (case v of VStr s \<Rightarrow> s | _ \<Rightarrow> py_str L v)"

definition eval_placeholder :: "pylib \<Rightarrow> pydict \<Rightarrow> string \<Rightarrow> exn + string" where
  "eval_placeholder L ctx e =
     (case parse_path e of
        None \<Rightarrow> Inl (Exn TemplateError (''unsupported expression: '' @ e) None)
      | Some p \<Rightarrow>
          (case lookup_path (VDict ctx) p of
             None \<Rightarrow> Inl (Exn TemplateError ([CHR 0x27] @ trim e @ [CHR 0x27] @ '' is undefined'') None)
           | Some v \<Rightarrow> Inr (to_text L v)))"

text \<open>
  The scanner: \<open>None\<close> while in text, \<open>Some acc\<close> between \<open>{{\<close> and \<open>}}\<close> with the
  characters of the expression read so far, last first.
\<close>

fun jinja_scan :: "pylib \<Rightarrow> pydict \<Rightarrow> string option \<Rightarrow> string \<Rightarrow> exn + string" where
  "jinja_scan L ctx None [] = Inr []"
| "jinja_scan L ctx None (c # cs) =
     (if c = CHR ''{'' \<and> cs \<noteq> [] \<and> hd cs = CHR ''{'' then jinja_scan L ctx (Some []) (tl cs)
      else if c = CHR ''{'' \<and> cs \<noteq> [] \<and> (hd cs = CHR ''%'' \<or> hd cs = CHR ''#'')
      then Inl (Exn TemplateError ''unsupported tag'' None)
      else (case jinja_scan L ctx None cs of Inl e \<Rightarrow> Inl e | Inr r \<Rightarrow> Inr (c # r)))"
| "jinja_scan L ctx (Some acc) [] = Inl (Exn TemplateError ''unexpected end of template'' None)"
| "jinja_scan L ctx (Some acc) (c # cs) =
     (if c = CHR ''}'' \<and> cs \<noteq> [] \<and> hd cs = CHR ''}''
      then (case eval_placeholder L ctx (rev acc) of
              Inl e \<Rightarrow> Inl e
            | Inr t \<Rightarrow> (case jinja_scan L ctx None (tl cs) of Inl e \<Rightarrow> Inl e | Inr r \<Rightarrow> Inr (t @ r)))
      else jinja_scan L ctx (Some (c # acc)) cs)"

fun normalize_newlines :: "string \<Rightarrow> string" where
  "normalize_newlines [] = []"
| "normalize_newlines (c # cs) =
     (if c = CHR 0x0D
      then CHR 0x0A # normalize_newlines (if cs \<noteq> [] \<and> hd cs = CHR 0x0A then tl cs else cs)
      else c # normalize_newlines cs)"

definition strip_trailing_newline :: "string \<Rightarrow> string" where
  "strip_trailing_newline s = (if s \<noteq> [] \<and> last s = CHR 0x0A then butlast s else s)"

text \<open>The template source as the scanner reads it.\<close>

definition template_source :: "string \<Rightarrow> string" where
  "template_source s = strip_trailing_newline (normalize_newlines s)"

definition jinja_render :: "pylib \<Rightarrow> renderer" where
  "jinja_render L s ctx = jinja_scan L ctx None (template_source s)"

section \<open>The orchestration engine (orchestrator.py)\<close>

text \<open>
  What a run does to the outside world is recorded as a trace of events, in the order
  of the calls in \<open>Orchestrator.run\<close>:
  \<^item> \<open>EvRender step0\<close>: \<open>_render_step(step0, ...)\<close> is called;
  \<^item> \<open>EvAttempt step\<close>: an iteration of the retry loop starts on the rendered step;
  \<^item> \<open>EvCall ty step\<close>: \<open>web_exec.run(step)\<close> or \<open>desktop_exec.run(step)\<close>;
  \<^item> \<open>EvSleep secs\<close>: the \<open>time.sleep\<close> of a WAIT step;
  \<^item> \<open>EvBackoff secs\<close>: the \<open>time.sleep(0.3)\<close> before a retry;
  \<^item> \<open>EvRepair wf step text ctx\<close>: the repair hook is called with these arguments;
  \<^item> \<open>EvPostRepair step\<close>: the attempt after a repair starts on the re-rendered step;
  \<^item> \<open>EvCommit id outputs\<close>: \<open>ctx["steps"][id] = outputs\<close>.
\<close>

datatype event =
    EvRender step
  | EvAttempt step
  | EvCall step_type step
  | EvSleep rat
  | EvBackoff rat
  | EvRepair workflow step string pydict
  | EvPostRepair step
  | EvCommit string pydict

text \<open>
  The collaborators of an \<open>Orchestrator\<close> act on a world \<open>'w\<close> that the engine cannot
  inspect: the capabilities and the repair hook take the world and return their result
  (or the exception they raise) with the new world.  They are given values, not
  references, so they cannot change the engine's context or steps.
\<close>

record 'w engine =
  web_exec :: "step \<Rightarrow> 'w \<Rightarrow> (exn + pyval) \<times> 'w"
  desktop_exec :: "step \<Rightarrow> 'w \<Rightarrow> (exn + pyval) \<times> 'w"
  repair_hook :: "(workflow \<Rightarrow> step \<Rightarrow> string \<Rightarrow> pydict \<Rightarrow> 'w \<Rightarrow> (exn + workflow) \<times> 'w) option"
  env :: renderer
  lib :: pylib
  clock :: "'w \<Rightarrow> rat"
  sleep :: "rat \<Rightarrow> 'w \<Rightarrow> 'w"

text \<open>
  \<open>Orchestrator.__init__\<close>: with \<open>strict_templates\<close> (the default, and the only value
  the repository passes) the environment is the strict one; the environment built
  with \<open>undefined=None\<close> otherwise is left open as \<open>other_env\<close>.
\<close>

definition orchestrator_init ::
  "(step \<Rightarrow> 'w \<Rightarrow> (exn + pyval) \<times> 'w) \<Rightarrow> (step \<Rightarrow> 'w \<Rightarrow> (exn + pyval) \<times> 'w)
     \<Rightarrow> (workflow \<Rightarrow> step \<Rightarrow> string \<Rightarrow> pydict \<Rightarrow> 'w \<Rightarrow> (exn + workflow) \<times> 'w) option
     \<Rightarrow> bool \<Rightarrow> renderer \<Rightarrow> pylib \<Rightarrow> ('w \<Rightarrow> rat) \<Rightarrow> (rat \<Rightarrow> 'w \<Rightarrow> 'w) \<Rightarrow> 'w engine" where
  "orchestrator_init web desktop hook strict_templates other_env L clk slp =
     \<lparr>web_exec = web, desktop_exec = desktop, repair_hook = hook,
      env = (if strict_templates then jinja_render L else other_env),
      lib = L, clock = clk, sleep = slp\<rparr>"

text \<open>
  The locals of \<open>run\<close> that outlive one statement: \<open>wf\<close>, \<open>step0\<close> and
  \<open>ctx["steps"]\<close> (the rest of \<open>ctx\<close> is the immutable \<open>inputs\<close>).
\<close>

record 'w run_state =
  world :: 'w
  wf_var :: workflow
  step0_var :: "step option"
  committed :: pydict
  trace :: "event list"

definition emit :: "event \<Rightarrow> 'w run_state \<Rightarrow> 'w run_state" where
  "emit ev s = s\<lparr>trace := trace s @ [ev]\<rparr>"

text \<open>\<open>{**inputs, "steps": ...}\<close>\<close>

definition mk_ctx :: "pydict \<Rightarrow> pydict \<Rightarrow> pydict" where
  "mk_ctx inp done = dict_set inp ''steps'' (VDict done)"

text \<open>\<open>verify\<close>: its body is \<open>pass\<close>.\<close>

definition verify :: "step \<Rightarrow> pydict \<Rightarrow> exn + unit" where
  "verify st outputs = Inr ()"

text \<open>The builtin \<open>float(v)\<close>.\<close>

fun py_float_of :: "pylib \<Rightarrow> pyval \<Rightarrow> exn + rat" where
  "py_float_of L (VFloat x) = Inr x"
| "py_float_of L (VInt i) = Inr (of_int i)"
| "py_float_of L (VBool b) = Inr (if b then 1 else 0)"
| "py_float_of L (VStr s) =
     (case py_float L s of
        None \<Rightarrow> Inl (Exn ValueError (''could not convert string to float: '' @ py_str L (VStr s)) None)
      | Some x \<Rightarrow> Inr x)"
| "py_float_of L v =
     Inl (Exn TypeError (''float() argument must be a string or a real number'') None)"

text \<open>
  The WAIT branch: \<open>secs = float(step.inputs.get("seconds", 1.0))\<close>,
  \<open>time.sleep(max(0.0, secs))\<close>, \<open>raw_outputs = {"waited_seconds": secs}\<close>.
\<close>

definition wait_capability :: "'w engine \<Rightarrow> step \<Rightarrow> 'w run_state \<Rightarrow> (exn + pyval) \<times> 'w run_state" where
  "wait_capability E st s =
     (case py_float_of (lib E)
             (case dict_get (inputs st) ''seconds'' of None \<Rightarrow> VFloat 1 | Some v \<Rightarrow> v) of
        Inl e \<Rightarrow> (Inl e, s)
      | Inr secs \<Rightarrow>
          (Inr (VDict [(''waited_seconds'', VFloat secs)]),
           emit (EvSleep (max 0 secs)) (s\<lparr>world := sleep E (max 0 secs) (world s)\<rparr>)))"

definition call_exec :: "'w engine \<Rightarrow> step_type \<Rightarrow> step \<Rightarrow> 'w run_state \<Rightarrow> (exn + pyval) \<times> 'w run_state" where
  "call_exec E ty st s =
     (case (if ty = WEB then web_exec E else desktop_exec E) st (world s) of
        (r, w') \<Rightarrow> (r, emit (EvCall ty st) (s\<lparr>world := w'\<rparr>)))"

text \<open>
  The dispatch of an attempt in the retry loop.  \<open>step.inputs\<close> is a \<open>dict\<close> by the type of
  the field and by \<open>render_templates\<close>, so the \<open>isinstance\<close> tests on it hold; a step
  type other than the three does not exist.
\<close>

definition dispatch :: "'w engine \<Rightarrow> step \<Rightarrow> 'w run_state \<Rightarrow> (exn + pyval) \<times> 'w run_state" where
  "dispatch E st s =
     (case step_type st of
        WEB \<Rightarrow>
          (if executor_hint st \<noteq> Browser_use \<and> executor_hint st \<noteq> Auto
           then (Inl (Exn RuntimeError
                       (step_id st @ '': WEB step must use executor_hint=browser_use/auto'') None), s)
           else if ''task'' \<notin> set (dict_keys (inputs st))
           then (Inl (Exn RuntimeError (step_id st @ '': WEB step.inputs.task is required'') None), s)
           else call_exec E WEB st s)
      | DESKTOP \<Rightarrow>
          (if executor_hint st \<noteq> Desktop_ax \<and> executor_hint st \<noteq> Auto
           then (Inl (Exn RuntimeError
                       (step_id st @ '': DESKTOP step must use executor_hint=desktop_ax/auto'') None), s)
           else if ''task'' \<notin> set (dict_keys (inputs st)) \<and> ''actions'' \<notin> set (dict_keys (inputs st))
           then (Inl (Exn RuntimeError
                       (step_id st @ '': DESKTOP needs inputs.task or inputs.actions'') None), s)
           else call_exec E DESKTOP st s)
      | WAIT \<Rightarrow> wait_capability E st s)"

text \<open>
  \<open>outputs = _validate_outputs(step, raw_outputs)\<close>, \<open>verify(step, outputs)\<close>,
  \<open>ctx["steps"][step.id] = outputs\<close>: the tail shared by both attempts.
\<close>

definition validate_and_commit :: "'w engine \<Rightarrow> step \<Rightarrow> pyval \<Rightarrow> 'w run_state \<Rightarrow> (exn + unit) \<times> 'w run_state" where
  "validate_and_commit E st raw s =
     (case validate_outputs (lib E) st raw of
        Inl e \<Rightarrow> (Inl e, s)
      | Inr outputs \<Rightarrow>
          (case verify st outputs of
             Inl e \<Rightarrow> (Inl e, s)
           | Inr _ \<Rightarrow>
               (Inr (),
                emit (EvCommit (step_id st) outputs)
                  (s\<lparr>committed := dict_set (committed s) (step_id st) (VDict outputs)\<rparr>))))"

text \<open>The body of the \<open>try\<close> in the retry loop.\<close>

definition attempt :: "'w engine \<Rightarrow> step \<Rightarrow> 'w run_state \<Rightarrow> (exn + unit) \<times> 'w run_state" where
  "attempt E st s =
     (let t0 = clock E (world s) in
      case dispatch E st s of
        (Inl e, s1) \<Rightarrow> (Inl e, s1)
      | (Inr raw, s1) \<Rightarrow>
          (if clock E (world s1) - t0 > of_int (max_seconds (policy st))
           then (Inl (Exn RuntimeError (step_id st @ '': exceeded max_seconds'') None), s1)
           else (case raw of
                   VDict _ \<Rightarrow> validate_and_commit E st raw s1
                 | _ \<Rightarrow> (Inl (Exn RuntimeError
                                (step_id st @ '': executor must return dict, got '' @ py_type_repr raw)
                                None), s1))))"

text \<open>The attempt after a repair: no hint, input, time or \<open>isinstance\<close> test.\<close>

definition post_repair_dispatch :: "'w engine \<Rightarrow> step \<Rightarrow> 'w run_state \<Rightarrow> (exn + pyval) \<times> 'w run_state" where
  "post_repair_dispatch E st s =
     (case step_type st of
        WEB \<Rightarrow> call_exec E WEB st s
      | DESKTOP \<Rightarrow> call_exec E DESKTOP st s
      | WAIT \<Rightarrow> wait_capability E st s)"

text \<open>The body of the inner \<open>try\<close>: the attempt after a repair.\<close>

definition post_repair_attempt :: "'w engine \<Rightarrow> step \<Rightarrow> 'w run_state \<Rightarrow> (exn + unit) \<times> 'w run_state" where
  "post_repair_attempt E st s =
     (case post_repair_dispatch E st s of
        (Inl e, s1) \<Rightarrow> (Inl e, s1)
      | (Inr raw, s1) \<Rightarrow> validate_and_commit E st raw s1)"

text \<open>
  The repair branch of the \<open>except\<close> clause, for the hook \<open>h\<close> and the error \<open>e\<close> of the
  last attempt.  An exception of the hook, of \<open>wf.steps[i]\<close> or of the re-rendering
  leaves \<open>run\<close> as it is; an exception \<open>e2\<close> of the attempt is raised \<open>from e\<close>.  On
  success the loop is left with \<open>last_err = None\<close> and the re-rendered \<open>step\<close>.
\<close>

definition repair_and_retry ::
  "'w engine \<Rightarrow> pydict \<Rightarrow> nat \<Rightarrow> step \<Rightarrow> exn
     \<Rightarrow> (workflow \<Rightarrow> step \<Rightarrow> string \<Rightarrow> pydict \<Rightarrow> 'w \<Rightarrow> (exn + workflow) \<times> 'w)
     \<Rightarrow> 'w run_state \<Rightarrow> (exn + exn option \<times> step) \<times> 'w run_state" where
  "repair_and_retry E inp i st e h s =
     (let ctx = mk_ctx inp (committed s) in
      case h (wf_var s) st (exn_msg e) ctx (world s) of
        (r, w1) \<Rightarrow>
          (let s1 = emit (EvRepair (wf_var s) st (exn_msg e) ctx) (s\<lparr>world := w1\<rparr>) in
           case r of
             Inl eh \<Rightarrow> (Inl eh, s1)
           | Inr wf' \<Rightarrow>
               (let s2 = s1\<lparr>wf_var := wf'\<rparr> in
                if length (steps wf') \<le> i
                then (Inl (Exn IndexError ''list index out of range'' None), s2)
                else
                  (let step0 = steps wf' ! i;
                       s3 = emit (EvRender step0) (s2\<lparr>step0_var := Some step0\<rparr>)
                   in case render_step (env E) ctx step0 of
                        Inl er \<Rightarrow> (Inl er, s3)
                      | Inr st' \<Rightarrow>
                          (case post_repair_attempt E st' (emit (EvPostRepair st') s3) of
                             (Inl e2, s4) \<Rightarrow> (Inl (raise_from e2 e), s4)
                           | (Inr _, s4) \<Rightarrow> (Inr (None, st'), s4))))))"

definition backoff :: "'w engine \<Rightarrow> 'w run_state \<Rightarrow> 'w run_state" where
  "backoff E s = emit (EvBackoff (3 / 10)) (s\<lparr>world := sleep E (3 / 10) (world s)\<rparr>)"

text \<open>
  \<open>for attempt in range(step.policy.retries + 1)\<close>: the last argument counts the
  iterations that remain.  The loop ends by \<open>break\<close> after a commit, by an exception, or
  (when the range is empty) without an iteration; the result carries \<open>last_err\<close> and
  \<open>step\<close> for the test after the loop.
\<close>

fun retry_loop ::
  "'w engine \<Rightarrow> pydict \<Rightarrow> nat \<Rightarrow> step \<Rightarrow> int \<Rightarrow> nat \<Rightarrow> exn option \<Rightarrow> 'w run_state
     \<Rightarrow> (exn + exn option \<times> step) \<times> 'w run_state" where
  "retry_loop E inp i st n 0 last_err s = (Inr (last_err, st), s)"
| "retry_loop E inp i st n (Suc k) last_err s =
     (case attempt E st (emit (EvAttempt st) s) of
        (Inr _, s1) \<Rightarrow> (Inr (None, st), s1)
      | (Inl e, s1) \<Rightarrow>
          (if n < retries (policy st)
           then retry_loop E inp i st (n + 1) k (Some e) (backoff E s1)
           else (case repair_hook E of
                   Some h \<Rightarrow> repair_and_retry E inp i st e h s1
                 | None \<Rightarrow> (Inl e, s1))))"

text \<open>One iteration of \<open>for i, step0 in enumerate(wf.steps)\<close>.\<close>

definition run_step :: "'w engine \<Rightarrow> pydict \<Rightarrow> nat \<Rightarrow> step \<Rightarrow> 'w run_state \<Rightarrow> (exn + unit) \<times> 'w run_state" where
  "run_step E inp i step0 s =
     (let s0 = emit (EvRender step0) (s\<lparr>step0_var := Some step0\<rparr>) in
      case render_step (env E) (mk_ctx inp (committed s)) step0 of
        Inl e \<Rightarrow> (Inl e, s0)
      | Inr st \<Rightarrow>
          (case retry_loop E inp i st 0 (nat (retries (policy st) + 1)) None s0 of
             (Inl e, s1) \<Rightarrow> (Inl e, s1)
           | (Inr (last_err, st'), s1) \<Rightarrow>
               (case last_err of
                  None \<Rightarrow> (Inr (), s1)
                | Some e \<Rightarrow>
                    (if step_id st' \<notin> set (dict_keys (committed s1)) then (Inl e, s1)
                     else (Inr (), s1)))))"

text \<open>
  The loop over the steps: \<open>enumerate(wf.steps)\<close> is taken once, from the workflow
  passed to \<open>run\<close>, so a workflow returned by the hook replaces \<open>wf\<close> but not the
  list being iterated.
\<close>

fun run_steps :: "'w engine \<Rightarrow> pydict \<Rightarrow> (nat \<times> step) list \<Rightarrow> 'w run_state \<Rightarrow> (exn + unit) \<times> 'w run_state" where
  "run_steps E inp [] s = (Inr (), s)"
| "run_steps E inp ((i, step0) # rest) s =
     (case run_step E inp i step0 s of
        (Inl e, s1) \<Rightarrow> (Inl e, s1)
      | (Inr _, s1) \<Rightarrow> run_steps E inp rest s1)"

definition init_state :: "workflow \<Rightarrow> 'w \<Rightarrow> 'w run_state" where
  "init_state flow w = \<lparr>world = w, wf_var = flow, step0_var = None, committed = [], trace = []\<rparr>"

text \<open>\<open>Orchestrator.run\<close>: the returned context, or the exception, with the final state.\<close>

definition run :: "'w engine \<Rightarrow> workflow \<Rightarrow> pydict \<Rightarrow> 'w \<Rightarrow> (exn + pydict) \<times> 'w run_state" where
  "run E flow inp w =
     (case run_steps E inp (enumerate 0 (steps flow)) (init_state flow w) of
        (Inl e, s) \<Rightarrow> (Inl e, s)
      | (Inr _, s) \<Rightarrow> (Inr (mk_ctx inp (committed s)), s))"

section \<open>The schema-guarded completion client (llm_json.py)\<close>
















section \<open>Notions used in the statements\<close>







text \<open>
  The strings of a value that \<open>render_templates\<close> renders (its string leaves; keys of
  mappings are not rendered), and the strings of a step that \<open>_render_step\<close> renders:
  the goal, the string leaves of inputs and postconditions, and those of the fallbacks.
\<close>

fun str_leaves :: "pyval \<Rightarrow> string list"
  and str_leaves_list :: "pyval list \<Rightarrow> string list"
  and str_leaves_items :: "pydict \<Rightarrow> string list" where
  "str_leaves (VStr s) = [s]"
| "str_leaves (VDict d) = str_leaves_items d"
| "str_leaves (VList vs) = str_leaves_list vs"
| "str_leaves VNone = []"
| "str_leaves (VBool b) = []"
| "str_leaves (VInt i) = []"
| "str_leaves (VFloat x) = []"
| "str_leaves_list [] = []"
| "str_leaves_list (v # vs) = str_leaves v @ str_leaves_list vs"
| "str_leaves_items [] = []"
| "str_leaves_items ((k, v) # d) = str_leaves v @ str_leaves_items d"

fun step_strings :: "step \<Rightarrow> string list"
  and steps_strings :: "step list \<Rightarrow> string list" where
  "step_strings (Step sid ty g inp sch post pol hint ev fbs) =
     g # str_leaves_items inp @ str_leaves_list post @ steps_strings fbs"
| "steps_strings [] = []"
| "steps_strings (fb # fbs) = step_strings fb @ steps_strings fbs"


fun has_open_tag :: "string \<Rightarrow> bool" where
  "has_open_tag [] = False"
| "has_open_tag (c # cs) =
     ((c = CHR ''{'' \<and> cs \<noteq> [] \<and> (hd cs = CHR ''{'' \<or> hd cs = CHR ''%'' \<or> hd cs = CHR ''#''))
      \<or> has_open_tag cs)"

definition plain :: "string \<Rightarrow> bool" where
  "plain s = (\<not> has_open_tag s \<and> CHR 0x0D \<notin> set s \<and> (s = [] \<or> last s \<noteq> CHR 0x0A))"

text \<open>
  The events of the control flow of one step: renderings, attempts, backoffs and
  repairs (not what a capability does during an attempt).
\<close>

fun is_control :: "event \<Rightarrow> bool" where
  "is_control (EvRender _) = True"
| "is_control (EvAttempt _) = True"
| "is_control (EvBackoff _) = True"
| "is_control (EvRepair _ _ _ _) = True"
| "is_control (EvPostRepair _) = True"
| "is_control _ = False"

text \<open>The writes \<open>ctx["steps"][id] = outputs\<close> of a trace, in the order they happened.\<close>

fun commits :: "event list \<Rightarrow> (string \<times> pydict) list" where
  "commits [] = []"
| "commits (EvCommit k out # evs) = (k, out) # commits evs"
| "commits (_ # evs) = commits evs"

text \<open>The capability calls of a trace.\<close>

fun calls :: "event list \<Rightarrow> (step_type \<times> step) list" where
  "calls [] = []"
| "calls (EvCall ty st # evs) = (ty, st) # calls evs"
| "calls (_ # evs) = calls evs"


text \<open>
  What an attempt may do to the state: \<open>quiet\<close> when it leaves the locals and the
  context alone and adds neither control events nor writes to the trace; \<open>wrote\<close> when
  it does the same up to one final write of validated outputs under the step id.
  \<open>retry_events st k\<close> are the control events of \<open>k\<close> failed attempts, each followed by
  the backoff, and one more attempt.
\<close>

definition quiet :: "'w run_state \<Rightarrow> 'w run_state \<Rightarrow> bool" where
  "quiet s s' =
     (wf_var s' = wf_var s \<and> step0_var s' = step0_var s \<and> committed s' = committed s \<and>
      (\<exists>evs. trace s' = trace s @ evs \<and> filter is_control evs = [] \<and> commits evs = []))"

definition wrote :: "'w engine \<Rightarrow> step \<Rightarrow> 'w run_state \<Rightarrow> 'w run_state \<Rightarrow> bool" where
  "wrote E st s s' =
     (wf_var s' = wf_var s \<and> step0_var s' = step0_var s \<and>
      (\<exists>evs out raw. trace s' = trace s @ evs @ [EvCommit (step_id st) out] \<and>
         filter is_control evs = [] \<and> commits evs = [] \<and>
         validate_outputs (lib E) st raw = Inr out \<and>
         committed s' = dict_set (committed s) (step_id st) (VDict out)))"

definition retry_events :: "step \<Rightarrow> nat \<Rightarrow> event list" where
  "retry_events st k = concat (replicate k [EvAttempt st, EvBackoff (3 / 10)]) @ [EvAttempt st]"




subsection \<open>Concrete inputs for evaluation\<close>

text \<open>
  A library, a policy and an engine over the one-point world, used where a statement is
  evaluated at a concrete input.  Both capabilities of the engine are the function
  \<open>cap\<close>; its clock stands still.
\<close>

definition sample_lib :: pylib where
  "sample_lib = \<lparr>py_str = (\<lambda>v. ''<value>''), py_float = (\<lambda>s. None), pyd_float = (\<lambda>s. None),
                  pyd_errtext = (\<lambda>name bad. ''validation error for '' @ name)\<rparr>"

definition sample_policy :: "int \<Rightarrow> step_policy" where
  "sample_policy r = \<lparr>max_actions = 12, max_seconds = 60, retries = r\<rparr>"

definition sample_engine :: "(workflow \<Rightarrow> step \<Rightarrow> string \<Rightarrow> pydict \<Rightarrow> unit \<Rightarrow> (exn + workflow) \<times> unit) option \<Rightarrow> (step \<Rightarrow> exn + pyval) \<Rightarrow> unit engine" where
  "sample_engine hook cap =
     orchestrator_init (\<lambda>st w. (cap st, w)) (\<lambda>st w. (cap st, w)) hook True (\<lambda>s ctx. Inr s)
       sample_lib (\<lambda>w. 0) (\<lambda>secs w. w)"

text \<open>A hook that returns the workflow it was given.\<close>

definition same_workflow_hook :: "workflow \<Rightarrow> step \<Rightarrow> string \<Rightarrow> pydict \<Rightarrow> unit \<Rightarrow> (exn + workflow) \<times> unit" where
  "same_workflow_hook flow st txt ctx w = (Inr flow, w)"

text \<open>
  Capabilities: one that always raises, one that returns an empty mapping, one that
  returns a title and an undeclared key, and one that raises for step \<open>b\<close> and returns
  the goal of any other step.
\<close>

definition failing_cap :: "step \<Rightarrow> exn + pyval" where
  "failing_cap st = Inl (Exn (OtherError ''CapabilityError'') ''boom'' None)"

definition empty_cap :: "step \<Rightarrow> exn + pyval" where
  "empty_cap st = Inr (VDict [])"



text \<open>
  A workflow around given steps, runtime inputs, and the steps used below: a WEB step
  whose task is the placeholder \<open>{{ user_text }}\<close> and what it renders to for the input
  \<open>pizza\<close>; a WEB step with the hint of the other capability and no task; a WAIT step;
  a step whose goal refers to a step that has not run; steps \<open>a\<close> and \<open>b\<close>.
\<close>

definition sample_workflow :: "step list \<Rightarrow> workflow" where
  "sample_workflow sts =
     \<lparr>wf_name = ''demo'', created_at_iso = ''2024-01-01T00:00:00'',
      wf_inputs = [(''user_text'', TString)], steps = sts\<rparr>"

definition pizza :: pydict where
  "pizza = [(''user_text'', VStr ''pizza'')]"

definition braces_input :: pydict where
  "braces_input = [(''user_text'', VStr ''{{ user_text }}!'')]"

definition web_step :: "int \<Rightarrow> step" where
  "web_step r = Step ''web_1'' WEB ''search'' [(''task'', VStr ''{{ user_text }}'')]
                  [(''title'', TString)] [] (sample_policy r) Auto None []"

definition web_step_rendered :: "int \<Rightarrow> step" where
  "web_step_rendered r = Step ''web_1'' WEB ''search'' [(''task'', VStr ''pizza'')]
                  [(''title'', TString)] [] (sample_policy r) Auto None []"

definition bad_hint_step :: step where
  "bad_hint_step = Step ''web_1'' WEB ''search'' [] [] [] (sample_policy 0) Desktop_ax None []"



definition task_step :: "string \<Rightarrow> step" where
  "task_step t = Step ''web_1'' WEB ''search'' [(''task'', VStr t)] [(''title'', TString)] []
                   (sample_policy 0) Auto None []"









section \<open>Properties\<close>

subsection \<open>Output validation\<close>
























subsection \<open>The WAIT capability\<close>





subsection \<open>Retries and repair\<close>

lemma commits_append: "commits (xs @ ys) = commits xs @ commits ys"
  by (induction xs rule: commits.induct) simp_all


lemma quiet_refl: "quiet s s"
  by (simp add: quiet_def)

lemma quiet_trans: "quiet s s1 \<Longrightarrow> quiet s1 s2 \<Longrightarrow> quiet s s2"
  by (auto simp: quiet_def commits_append)

lemma quiet_log: "\<not> is_control ev \<Longrightarrow> commits [ev] = [] \<Longrightarrow> quiet s (emit ev (s\<lparr>world := w\<rparr>))"
  by (simp add: quiet_def emit_def)

lemma wait_capability_quiet: "wait_capability E st s = (r, s') \<Longrightarrow> quiet s s'"
  by (auto simp: wait_capability_def quiet_refl quiet_log split: sum.splits)

lemma call_exec_quiet: "call_exec E ty st s = (r, s') \<Longrightarrow> quiet s s'"
  by (auto simp: call_exec_def quiet_log split: prod.splits)

lemma dispatch_quiet: "dispatch E st s = (r, s') \<Longrightarrow> quiet s s'"
  by (auto simp: dispatch_def quiet_refl split: step_type.splits if_splits
      dest: call_exec_quiet wait_capability_quiet)

lemma post_repair_dispatch_quiet: "post_repair_dispatch E st s = (r, s') \<Longrightarrow> quiet s s'"
  by (auto simp: post_repair_dispatch_def split: step_type.splits
      dest: call_exec_quiet wait_capability_quiet)

lemma validate_and_commit_Inl: "validate_and_commit E st raw s = (Inl e, s') \<Longrightarrow> s' = s"
  by (auto simp: validate_and_commit_def verify_def split: sum.splits)

lemma validate_and_commit_Inr:
  "validate_and_commit E st raw s = (Inr u, s') \<Longrightarrow> wrote E st s s'"
  by (auto simp: validate_and_commit_def verify_def wrote_def emit_def split: sum.splits)

lemma quiet_wrote:
  assumes "quiet s s1" and "wrote E st s1 s2"
  shows "wrote E st s s2"
proof -
  from assms(1) obtain evs where q: "wf_var s1 = wf_var s" "step0_var s1 = step0_var s"
    "committed s1 = committed s" "trace s1 = trace s @ evs" "filter is_control evs = []"
    "commits evs = []"
    by (auto simp: quiet_def)
  from assms(2) obtain evs' out raw where w: "wf_var s2 = wf_var s1" "step0_var s2 = step0_var s1"
    "trace s2 = trace s1 @ evs' @ [EvCommit (step_id st) out]" "filter is_control evs' = []"
    "commits evs' = []" "validate_outputs (lib E) st raw = Inr out"
    "committed s2 = dict_set (committed s1) (step_id st) (VDict out)"
    by (auto simp: wrote_def)
  have "trace s2 = trace s @ (evs @ evs') @ [EvCommit (step_id st) out]"
    using q(4) w(3) by simp
  moreover have "filter is_control (evs @ evs') = []" "commits (evs @ evs') = []"
    using q(5,6) w(4,5) by (simp_all add: commits_append)
  ultimately show ?thesis
    unfolding wrote_def using q(1,2,3) w(1,2,6,7) by metis
qed

lemma attempt_Inl: "attempt E st s = (Inl e, s') \<Longrightarrow> quiet s s'"
  by (auto simp: attempt_def Let_def split: prod.splits sum.splits if_splits pyval.splits
      dest: dispatch_quiet validate_and_commit_Inl)


lemma post_repair_attempt_Inl: "post_repair_attempt E st s = (Inl e, s') \<Longrightarrow> quiet s s'"
  by (auto simp: post_repair_attempt_def split: prod.splits sum.splits
      dest: post_repair_dispatch_quiet validate_and_commit_Inl)

lemma post_repair_attempt_Inr: "post_repair_attempt E st s = (Inr u, s') \<Longrightarrow> wrote E st s s'"
  by (auto simp: post_repair_attempt_def split: prod.splits sum.splits
      dest!: post_repair_dispatch_quiet validate_and_commit_Inr intro: quiet_wrote)

lemma retry_events_Suc: "retry_events st (Suc k) = EvAttempt st # EvBackoff (3 / 10) # retry_events st k"
  by (simp add: retry_events_def)

lemma retry_loop_all_fail:
  assumes fail: "\<And>s'. \<exists>e s''. attempt E st s' = (Inl e, s'')"
  shows "n + int k = retries (policy st) \<Longrightarrow>
    \<exists>e sa s1 evs.
      attempt E st sa = (Inl e, s1) \<and>
      retry_loop E inp i st n (Suc k) le s =
        (case repair_hook E of Some h \<Rightarrow> repair_and_retry E inp i st e h s1 | None \<Rightarrow> (Inl e, s1)) \<and>
      wf_var s1 = wf_var s \<and> step0_var s1 = step0_var s \<and> committed s1 = committed s \<and>
      trace s1 = trace s @ evs \<and> filter is_control evs = retry_events st k \<and> commits evs = []"
proof (induction k arbitrary: n le s)
  case 0
  obtain e s1 where a: "attempt E st (emit (EvAttempt st) s) = (Inl e, s1)"
    using fail by blast
  then have "quiet (emit (EvAttempt st) s) s1" by (rule attempt_Inl)
  then obtain evs where q: "wf_var s1 = wf_var s" "step0_var s1 = step0_var s"
    "committed s1 = committed s" "trace s1 = trace s @ [EvAttempt st] @ evs"
    "filter is_control evs = []" "commits evs = []"
    by (auto simp: quiet_def emit_def)
  from 0 have "\<not> n < retries (policy st)" by simp
  with a have "retry_loop E inp i st n (Suc 0) le s =
      (case repair_hook E of Some h \<Rightarrow> repair_and_retry E inp i st e h s1 | None \<Rightarrow> (Inl e, s1))"
    by simp
  moreover have "filter is_control ([EvAttempt st] @ evs) = retry_events st 0"
    "commits ([EvAttempt st] @ evs) = []"
    using q(5,6) by (simp_all add: retry_events_def)
  ultimately show ?case using a q(1-4) by blast
next
  case (Suc k)
  obtain e0 s0 where a: "attempt E st (emit (EvAttempt st) s) = (Inl e0, s0)"
    using fail by blast
  then have "quiet (emit (EvAttempt st) s) s0" by (rule attempt_Inl)
  then obtain evs0 where q: "wf_var s0 = wf_var s" "step0_var s0 = step0_var s"
    "committed s0 = committed s" "trace s0 = trace s @ [EvAttempt st] @ evs0"
    "filter is_control evs0 = []" "commits evs0 = []"
    by (auto simp: quiet_def emit_def)
  let ?sb = "backoff E s0"
  have b: "wf_var ?sb = wf_var s" "step0_var ?sb = step0_var s" "committed ?sb = committed s"
    "trace ?sb = trace s @ [EvAttempt st] @ evs0 @ [EvBackoff (3 / 10)]"
    using q by (simp_all add: backoff_def emit_def)
  from Suc.prems have lt: "n < retries (policy st)" and eq: "(n + 1) + int k = retries (policy st)"
    by simp_all
  from Suc.IH[OF eq, of "Some e0" ?sb]
  obtain e sa s1 evs where ih: "attempt E st sa = (Inl e, s1)"
    "retry_loop E inp i st (n + 1) (Suc k) (Some e0) ?sb =
        (case repair_hook E of Some h \<Rightarrow> repair_and_retry E inp i st e h s1 | None \<Rightarrow> (Inl e, s1))"
    "wf_var s1 = wf_var ?sb" "step0_var s1 = step0_var ?sb" "committed s1 = committed ?sb"
    "trace s1 = trace ?sb @ evs" "filter is_control evs = retry_events st k" "commits evs = []"
    by blast
  have "retry_loop E inp i st n (Suc (Suc k)) le s =
      retry_loop E inp i st (n + 1) (Suc k) (Some e0) ?sb"
    using a lt by simp
  with ih(2) have r: "retry_loop E inp i st n (Suc (Suc k)) le s =
      (case repair_hook E of Some h \<Rightarrow> repair_and_retry E inp i st e h s1 | None \<Rightarrow> (Inl e, s1))"
    by simp
  let ?evs = "[EvAttempt st] @ evs0 @ [EvBackoff (3 / 10)] @ evs"
  have t: "trace s1 = trace s @ ?evs" using ih(6) b(4) by simp
  have f: "filter is_control ?evs = retry_events st (Suc k)"
    using q(5) ih(7) by (simp add: retry_events_Suc)
  have c: "commits ?evs = []"
    using q(6) ih(8) by (simp add: commits_append)
  show ?case
    using ih(1) r ih(3,4,5) b(1,2,3) t f c by metis
qed


lemma repair_and_retry_trace:
  assumes "repair_and_retry E inp i st e h s = (res, s')"
  shows "\<exists>evs more. trace s' = trace s @ evs \<and>
      filter is_control evs = EvRepair (wf_var s) st (exn_msg e) (mk_ctx inp (committed s)) # more \<and>
      (more = [] \<or> (\<exists>x. more = [EvRender x]) \<or> (\<exists>x y. more = [EvRender x, EvPostRepair y]))"
proof -
  let ?ctx = "mk_ctx inp (committed s)"
  let ?rep = "EvRepair (wf_var s) st (exn_msg e) ?ctx"
  obtain r w1 where h: "h (wf_var s) st (exn_msg e) ?ctx (world s) = (r, w1)"
    by (cases "h (wf_var s) st (exn_msg e) ?ctx (world s)")
  let ?s1 = "emit ?rep (s\<lparr>world := w1\<rparr>)"
  show ?thesis
  proof (cases r)
    case (Inl eh)
    with assms h have "s' = ?s1" by (simp add: repair_and_retry_def Let_def)
    then have "trace s' = trace s @ [?rep]" by (simp add: emit_def)
    then show ?thesis by force
  next
    case (Inr flow')
    show ?thesis
    proof (cases "length (steps flow') \<le> i")
      case True
      with assms h Inr have "s' = ?s1\<lparr>wf_var := flow'\<rparr>"
        by (simp add: repair_and_retry_def Let_def)
      then have "trace s' = trace s @ [?rep]" by (simp add: emit_def)
      then show ?thesis by force
    next
      case False
      let ?step0 = "steps flow' ! i"
      let ?s3 = "emit (EvRender ?step0) (?s1\<lparr>wf_var := flow', step0_var := Some ?step0\<rparr>)"
      have t3: "trace ?s3 = trace s @ [?rep, EvRender ?step0]" by (simp add: emit_def)
      show ?thesis
      proof (cases "render_step (env E) ?ctx ?step0")
        case (Inl er)
        with assms h Inr False have "s' = ?s3"
          by (simp add: repair_and_retry_def Let_def)
        with t3 have "trace s' = trace s @ [?rep, EvRender ?step0]" by simp
        then show ?thesis by force
      next
        case rd: (Inr st')
        obtain r4 s4 where pa: "post_repair_attempt E st' (emit (EvPostRepair st') ?s3) = (r4, s4)"
          by (cases "post_repair_attempt E st' (emit (EvPostRepair st') ?s3)")
        from assms h Inr False rd pa have s': "s' = s4"
          by (auto simp: repair_and_retry_def Let_def split: sum.splits)
        have "\<exists>evs. trace s4 = trace (emit (EvPostRepair st') ?s3) @ evs \<and> filter is_control evs = []"
        proof (cases r4)
          case (Inl e2)
          with pa show ?thesis by (auto dest!: post_repair_attempt_Inl simp: quiet_def)
        next
          case (Inr u)
          with pa show ?thesis by (auto dest!: post_repair_attempt_Inr simp: wrote_def)
        qed
        then obtain evs where "trace s4 = trace s @ ([?rep, EvRender ?step0, EvPostRepair st'] @ evs)"
          "filter is_control evs = []"
          by (auto simp: emit_def)
        with s' show ?thesis by force
      qed
    qed
  qed
qed

lemma run_step_rendered:
  assumes "render_step (env E) (mk_ctx inp (committed s)) step0 = Inr st"
  shows "snd (run_step E inp i step0 s) =
           snd (retry_loop E inp i st 0 (nat (retries (policy st) + 1)) None
                  (emit (EvRender step0) (s\<lparr>step0_var := Some step0\<rparr>)))"
    and "fst (retry_loop E inp i st 0 (nat (retries (policy st) + 1)) None
                  (emit (EvRender step0) (s\<lparr>step0_var := Some step0\<rparr>))) = Inl e
         \<Longrightarrow> fst (run_step E inp i step0 s) = Inl e"
    and "fst (retry_loop E inp i st 0 (nat (retries (policy st) + 1)) None
                  (emit (EvRender step0) (s\<lparr>step0_var := Some step0\<rparr>))) = Inr (None, st2)
         \<Longrightarrow> fst (run_step E inp i step0 s) = Inr ()"
  using assms
  by (auto simp: run_step_def Let_def split: prod.splits sum.splits option.splits)


lemma render_web_step:
  "render_step (env (sample_engine hook cap)) (mk_ctx pizza []) (web_step 2) = Inr (web_step_rendered 2)"
  by code_simp

lemma web_step_always_fails:
  "fst (attempt (sample_engine hook failing_cap) (web_step_rendered r) s) =
     Inl (Exn (OtherError ''CapabilityError'') ''boom'' None)"
  by (simp add: attempt_def dispatch_def web_step_rendered_def call_exec_def sample_engine_def
      orchestrator_init_def failing_cap_def dict_keys_def)


text \<open>
  C2.  For a step that renders to \<open>st\<close> with \<open>policy.retries = r \<ge> 0\<close> and whose attempt
  fails in every state, one iteration of the step loop renders the step once, then makes
  exactly \<open>r + 1\<close> attempts, all on the same rendered step \<open>st\<close>, with one backoff of
  0.3 seconds after each of the first \<open>r\<close> attempts and no rendering in between.  Then,
  without a repair hook, the error \<open>e\<close> of the last attempt is raised and nothing else
  happens; with a repair hook, the hook is called next, on the current workflow, the
  rendered step, the text of \<open>e\<close> and the context.
\<close>

theorem retries_exhausted_trace:
  assumes rd: "render_step (env E) (mk_ctx inp (committed s)) step0 = Inr st"
    and nonneg: "0 \<le> retries (policy st)"
    and fail: "\<forall>s'. \<exists>e s''. attempt E st s' = (Inl e, s'')"
  shows "\<exists>e rest.
     filter is_control (trace (snd (run_step E inp i step0 s))) =
       filter is_control (trace s) @ [EvRender step0]
         @ concat (replicate (nat (retries (policy st))) [EvAttempt st, EvBackoff (3 / 10)])
         @ [EvAttempt st] @ rest
     \<and> (\<exists>sa sb. attempt E st sa = (Inl e, sb))
     \<and> (repair_hook E = None \<longrightarrow> rest = [] \<and> fst (run_step E inp i step0 s) = Inl e)
     \<and> (repair_hook E \<noteq> None \<longrightarrow>
          (\<exists>more. rest = EvRepair (wf_var s) st (exn_msg e) (mk_ctx inp (committed s)) # more
             \<and> (more = [] \<or> (\<exists>x. more = [EvRender x]) \<or> (\<exists>x y. more = [EvRender x, EvPostRepair y]))))"
proof -
  let ?k = "nat (retries (policy st))"
  let ?s0 = "emit (EvRender step0) (s\<lparr>step0_var := Some step0\<rparr>)"
  have k: "nat (retries (policy st) + 1) = Suc ?k" and eq: "0 + int ?k = retries (policy st)"
    using nonneg by simp_all
  from fail have fail': "\<And>s'. \<exists>e s''. attempt E st s' = (Inl e, s'')" by blast
  from retry_loop_all_fail[OF fail' eq, of inp i None ?s0]
  obtain e sa s1 evs where l: "attempt E st sa = (Inl e, s1)"
    "retry_loop E inp i st 0 (Suc ?k) None ?s0 =
        (case repair_hook E of Some h \<Rightarrow> repair_and_retry E inp i st e h s1 | None \<Rightarrow> (Inl e, s1))"
    "wf_var s1 = wf_var ?s0" "committed s1 = committed ?s0"
    "trace s1 = trace ?s0 @ evs" "filter is_control evs = retry_events st ?k"
    by blast
  have t1: "filter is_control (trace s1) =
      filter is_control (trace s) @ [EvRender step0] @ retry_events st ?k"
    using l(5,6) by (simp add: emit_def)
  have s1: "wf_var s1 = wf_var s" "committed s1 = committed s"
    using l(3,4) by (simp_all add: emit_def)
  show ?thesis
  proof (cases "repair_hook E")
    case None
    with l(2) k have r: "retry_loop E inp i st 0 (nat (retries (policy st) + 1)) None ?s0 = (Inl e, s1)"
      by simp
    have "snd (run_step E inp i step0 s) = s1" "fst (run_step E inp i step0 s) = Inl e"
      using run_step_rendered(1)[OF rd, of i] run_step_rendered(2)[OF rd, of i e] r by simp_all
    with t1 None l(1) show ?thesis
      by (intro exI[of _ e] exI[of _ "[]"]) (auto simp: retry_events_def)
  next
    case (Some h)
    obtain res s' where rr: "repair_and_retry E inp i st e h s1 = (res, s')"
      by (cases "repair_and_retry E inp i st e h s1")
    with l(2) k Some have r: "retry_loop E inp i st 0 (nat (retries (policy st) + 1)) None ?s0 = (res, s')"
      by simp
    have sn: "snd (run_step E inp i step0 s) = s'"
      using run_step_rendered(1)[OF rd, of i] r by simp
    from repair_and_retry_trace[OF rr] s1
    obtain evs2 more where m: "trace s' = trace s1 @ evs2"
      "filter is_control evs2 = EvRepair (wf_var s) st (exn_msg e) (mk_ctx inp (committed s)) # more"
      "more = [] \<or> (\<exists>x. more = [EvRender x]) \<or> (\<exists>x y. more = [EvRender x, EvPostRepair y])"
      by auto
    have "filter is_control (trace s') =
       filter is_control (trace s) @ [EvRender step0] @ retry_events st ?k
         @ (EvRepair (wf_var s) st (exn_msg e) (mk_ctx inp (committed s)) # more)"
      using m(1,2) t1 by simp
    with sn Some l(1) m(3) show ?thesis
      by (intro exI[of _ e] exI[of _ "EvRepair (wf_var s) st (exn_msg e) (mk_ctx inp (committed s)) # more"])
         (auto simp: retry_events_def)
  qed
qed

theorem retries_exhausted_trace_witness:
  "filter is_control
     (trace (snd (run_step (sample_engine None failing_cap) pizza 0 (web_step 2)
                    (init_state (sample_workflow [web_step 2]) ()))))
   = [EvRender (web_step 2),
      EvAttempt (web_step_rendered 2), EvBackoff (3 / 10),
      EvAttempt (web_step_rendered 2), EvBackoff (3 / 10),
      EvAttempt (web_step_rendered 2)]
   \<and> (\<exists>e. fst (run_step (sample_engine None failing_cap) pizza 0 (web_step 2)
                    (init_state (sample_workflow [web_step 2]) ())) = Inl e)"
proof -
  let ?E = "sample_engine None failing_cap :: unit engine"
  let ?s = "init_state (sample_workflow [web_step 2]) ()"
  have rd: "render_step (env ?E) (mk_ctx pizza (committed ?s)) (web_step 2) = Inr (web_step_rendered 2)"
    using render_web_step by (simp add: init_state_def)
  have nonneg: "0 \<le> retries (policy (web_step_rendered 2))"
    by (simp add: web_step_rendered_def sample_policy_def)
  have fail: "\<forall>s'. \<exists>e s''. attempt ?E (web_step_rendered 2) s' = (Inl e, s'')"
    by (metis web_step_always_fails prod.collapse)
  have none: "repair_hook ?E = None"
    by (simp add: sample_engine_def orchestrator_init_def)
  have k: "nat (retries (policy (web_step_rendered 2))) = Suc (Suc 0)"
    by (simp add: web_step_rendered_def sample_policy_def)
  from retries_exhausted_trace[OF rd nonneg fail, of 0] none
  show ?thesis
    by (auto simp: k init_state_def)
qed



subsection \<open>Dispatch checks\<close>

lemma dispatch_checks_fail_fast:
  shows "step_type st = WEB \<Longrightarrow>
     (executor_hint st \<noteq> Browser_use \<and> executor_hint st \<noteq> Auto) \<or> ''task'' \<notin> set (dict_keys (inputs st)) \<Longrightarrow>
     \<exists>e. dispatch E st s = (Inl e, s)"
  and "step_type st = DESKTOP \<Longrightarrow>
     (executor_hint st \<noteq> Desktop_ax \<and> executor_hint st \<noteq> Auto)
       \<or> (''task'' \<notin> set (dict_keys (inputs st)) \<and> ''actions'' \<notin> set (dict_keys (inputs st))) \<Longrightarrow>
     \<exists>e. dispatch E st s = (Inl e, s)"
  by (auto simp: dispatch_def)

text \<open>
  C5.  In the retry loop a WEB or DESKTOP step with an incompatible \<open>executor_hint\<close> or
  without its required input fails before the capability is called (the lemma above).
  The attempt after a repair makes no such test.  Evaluated on a workflow whose only
  step is a WEB step with \<open>executor_hint = desktop_ax\<close> and no \<open>inputs.task\<close>, with a
  hook that returns the workflow unchanged: the retry loop fails fast without a call,
  and the attempt after the repair calls the WEB capability on that very step and
  commits its output.
\<close>

theorem post_repair_attempt_skips_dispatch_checks:
  "executor_hint bad_hint_step = Desktop_ax
   \<and> ''task'' \<notin> set (dict_keys (inputs bad_hint_step))
   \<and> calls (trace (snd (run (sample_engine (Some same_workflow_hook) empty_cap)
                          (sample_workflow [bad_hint_step]) pizza ())))
     = [(WEB, bad_hint_step)]
   \<and> fst (run (sample_engine (Some same_workflow_hook) empty_cap)
            (sample_workflow [bad_hint_step]) pizza ())
     = Inr [(''user_text'', VStr ''pizza''), (''steps'', VDict [(''web_1'', VDict [(''ok'', VStr [])])])]"
  by code_simp

subsection \<open>The context is append-only\<close>




















subsection \<open>Template rendering\<close>


























lemma normalize_newlines_id: "CHR 0x0D \<notin> set s \<Longrightarrow> normalize_newlines s = s"
  by (induction s) auto

lemma template_source_plain: "plain s \<Longrightarrow> template_source s = s"
  by (auto simp: plain_def template_source_def normalize_newlines_id strip_trailing_newline_def)

lemma scan_plain: "\<not> has_open_tag s \<Longrightarrow> jinja_scan L ctx None s = Inr s"
  by (induction s) auto

lemma jinja_render_plain: "plain s \<Longrightarrow> jinja_render L s ctx = Inr s"
  by (simp add: jinja_render_def template_source_plain scan_plain plain_def)

lemma render_string_fixed: "R s ctx = Inr s \<Longrightarrow> render_string R ctx s = Inr s"
  by (simp add: render_string_def)

lemma render_fixed:
  "\<forall>s \<in> set (str_leaves v). R s ctx = Inr s \<Longrightarrow> render_templates R ctx v = Inr v"
  "\<forall>s \<in> set (str_leaves_list vs). R s ctx = Inr s \<Longrightarrow> render_list R ctx vs = Inr vs"
  "\<forall>s \<in> set (str_leaves_items d). R s ctx = Inr s \<Longrightarrow> render_items R ctx d = Inr d"
  by (induction R ctx v and R ctx vs and R ctx d rule: render_templates_render_list_render_items.induct)
     (simp_all add: render_string_fixed)

lemma render_step_fixed:
  "\<forall>s \<in> set (step_strings st). R s ctx = Inr s \<Longrightarrow> render_step R ctx st = Inr st"
  "\<forall>s \<in> set (steps_strings sts). R s ctx = Inr s \<Longrightarrow> render_steps R ctx sts = Inr sts"
  by (induction R ctx st and R ctx sts rule: render_step_render_steps.induct)
     (simp_all add: render_string_fixed render_fixed)

text \<open>
  C9 (as amended).  When a step renders, under a context, to a step whose strings are
  plain (no \<open>{{\<close>, \<open>{%\<close> or \<open>{#\<close>, no carriage return, no trailing line break),
  rendering the rendered step again under the same context yields the same step.
\<close>

theorem rerender_plain_step:
  assumes "render_step (jinja_render L) ctx st = Inr st'"
    and "\<forall>t \<in> set (step_strings st'). plain t"
  shows "render_step (jinja_render L) ctx st' = Inr st'"
  using assms(2) by (intro render_step_fixed(1)) (simp add: jinja_render_plain)

theorem rerender_plain_step_witness:
  "render_step (jinja_render sample_lib) (mk_ctx pizza []) (web_step_rendered 2)
     = Inr (web_step_rendered 2)"
proof -
  have a: "render_step (jinja_render sample_lib) (mk_ctx pizza []) (web_step 2) = Inr (web_step_rendered 2)"
    by code_simp
  have b: "\<forall>t \<in> set (step_strings (web_step_rendered 2)). plain t"
    by code_simp
  from rerender_plain_step[OF a b] show ?thesis .
qed

text \<open>
  The claim as stated fails when a value of the context contains template syntax:
  with \<open>user_text = "{{ user_text }}!"\<close> the task \<open>{{ user_text }}\<close> renders to
  \<open>{{ user_text }}!\<close>, and rendering that again gives \<open>{{ user_text }}!!\<close>.
\<close>

theorem rerender_counterexample:
  "render_step (jinja_render sample_lib) (mk_ctx braces_input []) (task_step ''{{ user_text }}'')
     = Inr (task_step ''{{ user_text }}!'')
   \<and> render_step (jinja_render sample_lib) (mk_ctx braces_input []) (task_step ''{{ user_text }}!'')
     = Inr (task_step ''{{ user_text }}!!'')
   \<and> task_step ''{{ user_text }}!'' \<noteq> task_step ''{{ user_text }}!!''"
  by code_simp

subsection \<open>The schema-guarded completion client\<close>











end
